theory Spec2Isabelle
  imports Complex_Main
begin

section \<open>The solar irradiation calculator (src/src/App.tsx)\<close>

text \<open>
  The component \<open>App\<close> keeps nine pieces of React state and three handlers that change
  them: \<open>handlePositionChange\<close> (a click on the map), \<open>handleLatLngInput\<close> (leaving one
  of the two coordinate fields) and \<open>calculateSolar\<close> (the button). The handlers are
  embedded as functions from the state to the new state.

  A JavaScript \<open>number\<close> is modelled as a real. Comparison, \<open>Math.abs\<close>,
  \<open>Math.round\<close>, \<open>toFixed\<close> and the subtraction of whole numbers are exact on
  doubles, so they are the same functions here. The values that are not reals (\<open>NaN\<close>,
  the infinities) are written out where the code can meet them, in the result of
  \<open>parseFloat\<close> and of a subtraction. The two functions of the platform whose result
  depends on the binary representation of a double, \<open>Number.prototype.toString\<close> and
  \<open>parseFloat\<close>, are parameters (\<open>ts\<close>, \<open>pf\<close>) of the handlers that call them.
  The subtraction of two doubles in the results panel is modelled with its rounding
  (\<open>toDouble\<close>).
\<close>

subsection \<open>Data\<close>

type_synonym number = real

record SolarData =
  yearlyIrradiation :: number
  monthlyData :: "number list"
  optimalTilt :: number
  optimalAzimuth :: number
  loss :: number

text \<open>
  What the handlers do to the world outside the React state, in the order they do it:
  the call of \<open>fetch\<close> (the endpoint and the entries of the \<open>URLSearchParams\<close>, in
  insertion order) and the two console calls.
\<close>

datatype thrown =
    FetchRejected
  | ApiError string
  | BodyError

datatype effect =
    Fetch string "(string \<times> string) list"
  | ConsoleWarn string
  | ConsoleError thrown

text \<open>
  The state of \<open>App\<close>: one field for each \<open>useState\<close>, with its initial value in
  \<open>initial\<close>, and the effects so far.
\<close>

record app =
  position :: "(number \<times> number) option"
  lat :: string
  lng :: string
  tilt :: number
  azimuth :: number
  shading :: number
  loading :: bool
  error :: string
  solarData :: "SolarData option"
  effects :: "effect list"

definition initial :: app where
  "initial = \<lparr>position = None, lat = '''', lng = '''', tilt = 35, azimuth = 180,
     shading = 0, loading = False, error = '''', solarData = None, effects = []\<rparr>"

subsection \<open>Numbers and text\<close>

text \<open>
  \<open>Number.prototype.toString\<close> gives the shortest decimal text that reads back as the
  same double; it has no counterpart on the reals and is a parameter \<open>ts\<close> of every
  function that calls it.

  \<open>Number.prototype.toFixed\<close> (ECMA-262, 21.1.3.3) for a finite number \<open>x\<close> and
  \<open>f\<close> digits: when \<open>x\<close> is negative the text starts with \<open>-\<close> and \<open>x\<close> is negated;
  from \<open>10^21\<close> on the result is that of \<open>toString\<close>; otherwise \<open>n\<close> is the integer
  for which \<open>n / 10^f - x\<close> is closest to zero, the larger one of two, its decimal digits
  are padded with zeros on the left to \<open>f + 1\<close> digits, and the point goes before the
  last \<open>f\<close> of them.
\<close>

definition digitChar :: "nat \<Rightarrow> char" where
  "digitChar d = char_of (48 + d)"

fun digits :: "nat \<Rightarrow> string" where
  "digits n = (if n < 10 then [digitChar n] else digits (n div 10) @ [digitChar (n mod 10)])"

declare digits.simps [simp del]

definition toFixed :: "(number \<Rightarrow> string) \<Rightarrow> nat \<Rightarrow> number \<Rightarrow> string" where
  "toFixed ts f x =
     (let s = (if x < 0 then ''-'' else '''');
          y = \<bar>x\<bar>
      in if 10 ^ 21 \<le> y then s @ ts y
         else
           let n = nat \<lfloor>y * 10 ^ f + 1 / 2\<rfloor>;
               m = digits n;
               m = (if f \<noteq> 0 \<and> length m \<le> f then replicate (f + 1 - length m) (CHR ''0'') @ m
                    else m)
           in if f \<noteq> 0
              then s @ take (length m - f) m @ ''.'' @ drop (length m - f) m
              else s @ m)"

text \<open>\<open>Math.round\<close>: the nearest integer, the larger one of two.\<close>

definition Math_round :: "number \<Rightarrow> number" where
  "Math_round x = of_int \<lfloor>x + 1 / 2\<rfloor>"

subsection \<open>handlePositionChange\<close>

definition handlePositionChange :: "(number \<Rightarrow> string) \<Rightarrow> number \<times> number \<Rightarrow> app \<Rightarrow> app" where
  "handlePositionChange ts pos st =
     st\<lparr>position := Some pos, lat := toFixed ts 5 (fst pos), lng := toFixed ts 5 (snd pos)\<rparr>"

subsection \<open>calculateSolar\<close>

text \<open>
  What the awaited \<open>fetch\<close> and \<open>response.json()\<close> give the handler: the promise of
  \<open>fetch\<close> rejects; or the response is not \<open>ok\<close>; or it is \<open>ok\<close> and reading
  \<open>data.outputs.monthly.fixed\<close> and \<open>data.outputs.totals.fixed.E_y\<close> out of its body
  throws (the body is not JSON, or \<open>outputs\<close>, \<open>monthly\<close>, \<open>totals\<close> or the array
  are missing); or the body has the shape the code reads and its annotation
  \<open>(m: { E_m: number })\<close> declares, and gives the \<open>E_m\<close> of the entries of
  \<open>monthly.fixed\<close>, however many there are, and the number \<open>E_y\<close>. A body in which
  \<open>E_y\<close> or an \<open>E_m\<close> is not a number is not among the replies.
\<close>

datatype reply =
    Rejects
  | NotOk
  | BadBody
  | Body "number list" number

definition endpoint :: string where
  "endpoint = ''https://re.jrc.ec.europa.eu/api/v5_2/PVcalc''"

definition params :: "(number \<Rightarrow> string) \<Rightarrow> number \<times> number \<Rightarrow> app \<Rightarrow> (string \<times> string) list" where
  "params ts pos st =
     [(''lat'', ts (fst pos)),
      (''lon'', ts (snd pos)),
      (''peakpower'', ''1''),
      (''loss'', ts (shading st)),
      (''angle'', ts (tilt st)),
      (''aspect'', ts (azimuth st - 180)),
      (''outputformat'', ''json''),
      (''pvtechchoice'', ''crystSi'')]"

text \<open>
  \<open>monthlyData[i]\<close> is \<open>undefined\<close> past the end of the array, and \<open>a <= b\<close> is false
  when either side is \<open>undefined\<close>.
\<close>

definition at_index :: "number list \<Rightarrow> nat \<Rightarrow> number option" where
  "at_index xs i = (if i < length xs then Some (xs ! i) else None)"

fun js_le :: "number option \<Rightarrow> number option \<Rightarrow> bool" where
  "js_le (Some a) (Some b) = (a \<le> b)"
| "js_le _ _ = False"

definition isNorthernHemisphere :: "number \<times> number \<Rightarrow> bool" where
  "isNorthernHemisphere pos = (fst pos > 0)"

definition summerMonth :: "number \<times> number \<Rightarrow> number list \<Rightarrow> number option" where
  "summerMonth pos monthly =
     (if isNorthernHemisphere pos then at_index monthly 5 else at_index monthly 11)"

definition winterMonth :: "number \<times> number \<Rightarrow> number list \<Rightarrow> number option" where
  "winterMonth pos monthly =
     (if isNorthernHemisphere pos then at_index monthly 11 else at_index monthly 5)"

definition noLocationMessage :: string where
  "noLocationMessage = ''Bitte waehlen Sie einen Standort auf der Karte.''"

definition fetchFailedMessage :: string where
  "fetchFailedMessage = ''Fehler beim Abrufen der Solardaten. Bitte versuchen Sie es erneut.''"

definition seasonalNotice :: string where
  "seasonalNotice = ''Saisonale Verteilung unerwartet''"

definition plausibilityWarning :: "(number \<Rightarrow> string) \<Rightarrow> number \<Rightarrow> string" where
  "plausibilityWarning ts y =
     ''Warnung: Berechneter Wert ('' @ toFixed ts 0 y @
     '' kWh/m2/Jahr) liegt ausserhalb des erwarteten Bereichs (800-2500).''"

text \<open>
  The handler up to the point where it awaits the network: the guard on \<open>position\<close>
  (\<open>None\<close>: the handler has returned), then \<open>setLoading(true)\<close> and \<open>setError('')\<close>.
\<close>

definition calculateSolar_begin :: "app \<Rightarrow> app + (number \<times> number) \<times> app" where
  "calculateSolar_begin st =
     (case position st of
        None \<Rightarrow> Inl (st\<lparr>error := noLocationMessage\<rparr>)
      | Some pos \<Rightarrow> Inr (pos, st\<lparr>loading := True, error := ''''\<rparr>))"

text \<open>
  The body of \<open>try\<close> from the call of \<open>fetch\<close> on, with the position and the shading
  the handler closed over: \<open>Inl\<close> is what was thrown, together with the state at the throw.
\<close>

definition calculateSolar_try ::
    "(number \<Rightarrow> string) \<Rightarrow> (string \<Rightarrow> (string \<times> string) list \<Rightarrow> reply) \<Rightarrow> number \<times> number \<Rightarrow>
     app \<Rightarrow> (thrown \<times> app) + app" where
  "calculateSolar_try ts fetch pos st =
     (let ps = params ts pos st;
          st1 = st\<lparr>effects := effects st @ [Fetch endpoint ps]\<rparr>
      in case fetch endpoint ps of
           Rejects \<Rightarrow> Inl (FetchRejected, st1)
         | NotOk \<Rightarrow> Inl (ApiError ''PVGIS API Fehler'', st1)
         | BadBody \<Rightarrow> Inl (BodyError, st1)
         | Body monthly yearly \<Rightarrow>
             let st2 = (if yearly < 800 \<or> yearly > 2500
                        then st1\<lparr>error := plausibilityWarning ts yearly\<rparr> else st1);
                 st3 = (if js_le (summerMonth pos monthly) (winterMonth pos monthly)
                        then st2\<lparr>effects := effects st2 @ [ConsoleWarn seasonalNotice]\<rparr> else st2)
             in Inr (st3\<lparr>solarData := Some
                  \<lparr>yearlyIrradiation = yearly,
                   monthlyData = monthly,
                   optimalTilt = \<bar>fst pos\<bar>,
                   optimalAzimuth = (if fst pos > 0 then 180 else 0),
                   loss = shading st\<rparr>\<rparr>))"

text \<open>\<open>catch\<close> and \<open>finally\<close>.\<close>

definition calculateSolar_settle :: "(thrown \<times> app) + app \<Rightarrow> app" where
  "calculateSolar_settle r =
     (let st' = (case r of
                   Inl (err, st) \<Rightarrow>
                     st\<lparr>error := fetchFailedMessage, effects := effects st @ [ConsoleError err]\<rparr>
                 | Inr st \<Rightarrow> st)
      in st'\<lparr>loading := False\<rparr>)"

definition calculateSolar ::
    "(number \<Rightarrow> string) \<Rightarrow> (string \<Rightarrow> (string \<times> string) list \<Rightarrow> reply) \<Rightarrow> app \<Rightarrow> app" where
  "calculateSolar ts fetch st =
     (case calculateSolar_begin st of
        Inl st' \<Rightarrow> st'
      | Inr (pos, st') \<Rightarrow> calculateSolar_settle (calculateSolar_try ts fetch pos st'))"

subsection \<open>handleLatLngInput\<close>

text \<open>
  \<open>parseFloat\<close> (ECMA-262, 19.2.4) skips white space at the start, then reads the
  longest prefix that is a decimal literal: an optional sign, then \<open>Infinity\<close> or
  digits with an optional point and fraction (or a point and a fraction alone), then an
  optional exponent, which counts only when digits follow the \<open>e\<close>. What comes after that
  prefix is ignored; when there is no such prefix the result is \<open>NaN\<close>. The platform
  then rounds the decimal to a double; \<open>parseFloat\<close> below is the function without
  that last step, on strings of code units below 256: the value read is the exact
  decimal. The handler takes the parser as its parameter \<open>pf\<close>, so what is proved of it
  holds with the platform's function; the examples run it with \<open>parseFloat\<close>.
\<close>

datatype parsed = NaN | Infinity | NegInfinity | Finite number

definition isWhiteSpace :: "char \<Rightarrow> bool" where
  "isWhiteSpace c = (of_char c \<in> {9, 10, 11, 12, 13, 32, 160 :: nat})"

definition isDigit :: "char \<Rightarrow> bool" where
  "isDigit c = (48 \<le> (of_char c :: nat) \<and> (of_char c :: nat) \<le> 57)"

definition digitsValue :: "string \<Rightarrow> nat" where
  "digitsValue ds = foldl (\<lambda>n c. 10 * n + (of_char c - 48)) 0 ds"

definition signOf :: "string \<Rightarrow> bool \<times> string" where
  "signOf s =
     (case s of
        [] \<Rightarrow> (False, [])
      | c # r \<Rightarrow> if c = CHR ''-'' then (True, r) else if c = CHR ''+'' then (False, r) else (False, s))"

definition exponentPart :: "string \<Rightarrow> int" where
  "exponentPart s =
     (case s of
        [] \<Rightarrow> 0
      | c # r \<Rightarrow>
          if c = CHR ''e'' \<or> c = CHR ''E''
          then (let (neg, d) = signOf r; ds = takeWhile isDigit d
                in if ds = [] then 0
                   else if neg then - int (digitsValue ds) else int (digitsValue ds))
          else 0)"

definition scale10 :: "number \<Rightarrow> int \<Rightarrow> number" where
  "scale10 m e = (if e < 0 then m / 10 ^ nat (- e) else m * 10 ^ nat e)"

definition parseFloat :: "string \<Rightarrow> parsed" where
  "parseFloat inputString =
     (let (neg, u) = signOf (dropWhile isWhiteSpace inputString)
      in if take 8 u = ''Infinity'' then (if neg then NegInfinity else Infinity)
         else
           let ip = takeWhile isDigit u;
               r1 = dropWhile isDigit u;
               point = (r1 \<noteq> [] \<and> hd r1 = CHR ''.'');
               fp = (if point then takeWhile isDigit (tl r1) else []);
               r2 = (if point then dropWhile isDigit (tl r1) else r1)
           in if ip = [] \<and> fp = [] then NaN
              else
                let m = real (digitsValue ip) + real (digitsValue fp) / 10 ^ length fp;
                    v = scale10 m (exponentPart r2)
                in Finite (if neg then - v else v))"

text \<open>
  \<open>isNaN\<close>, \<open>>=\<close> and \<open><=\<close> on what \<open>parseFloat\<close> returns, against a finite
  bound: every comparison with \<open>NaN\<close> is false.
\<close>

fun isNaN :: "parsed \<Rightarrow> bool" where
  "isNaN NaN = True"
| "isNaN _ = False"

fun ge_num :: "parsed \<Rightarrow> number \<Rightarrow> bool" where
  "ge_num NaN b = False"
| "ge_num Infinity b = True"
| "ge_num NegInfinity b = False"
| "ge_num (Finite a) b = (a \<ge> b)"

fun le_num :: "parsed \<Rightarrow> number \<Rightarrow> bool" where
  "le_num NaN b = False"
| "le_num Infinity b = False"
| "le_num NegInfinity b = True"
| "le_num (Finite a) b = (a \<le> b)"

text \<open>
  The handler reads the two text fields of the latest render. Past its test both numbers
  are finite, so the last case of the inner \<open>case\<close> is never taken
  (\<open>accepted_finite\<close> below).
\<close>

definition accepted :: "parsed \<Rightarrow> parsed \<Rightarrow> bool" where
  "accepted latNum lngNum =
     (\<not> isNaN latNum \<and> \<not> isNaN lngNum \<and> ge_num latNum (- 90) \<and> le_num latNum 90 \<and>
      ge_num lngNum (- 180) \<and> le_num lngNum 180)"

definition handleLatLngInput :: "(string \<Rightarrow> parsed) \<Rightarrow> app \<Rightarrow> app" where
  "handleLatLngInput pf st =
     (let latNum = pf (lat st);
          lngNum = pf (lng st)
      in if accepted latNum lngNum
         then (case (latNum, lngNum) of
                 (Finite a, Finite b) \<Rightarrow> st\<lparr>position := Some (a, b)\<rparr>
               | _ \<Rightarrow> st)
         else st)"

subsection \<open>The suggestion in the results panel\<close>

text \<open>
  The subtraction of two doubles is the exact difference rounded to a double (IEEE 754
  binary64, round to nearest, ties to even): with \<open>e\<close> the exponent of the binade of the
  exact value \<open>y\<close>, at least -1022, the value is rounded to a multiple of
  \<open>2^(e - 52)\<close>, and a result of \<open>2^1024\<close> or more is an infinity. \<open>log2floor\<close>
  finds the exponent of a value from 1 on, \<open>halvings\<close> that of a value below 1.
\<close>

fun log2floor :: "nat \<Rightarrow> nat" where
  "log2floor n = (if n < 2 then 0 else Suc (log2floor (n div 2)))"

declare log2floor.simps [simp del]

fun halvings :: "nat \<Rightarrow> real \<Rightarrow> nat" where
  "halvings 0 y = 0"
| "halvings (Suc k) y = (if 1 \<le> y then 0 else Suc (halvings k (2 * y)))"

definition exponent :: "real \<Rightarrow> int" where
  "exponent y = (if 1 \<le> y then int (log2floor (nat \<lfloor>y\<rfloor>)) else - int (halvings 1022 y))"

definition pow2 :: "int \<Rightarrow> real" where
  "pow2 i = (if 0 \<le> i then 2 ^ nat i else 1 / 2 ^ nat (- i))"

definition roundHalfEven :: "real \<Rightarrow> int" where
  "roundHalfEven z =
     (let f = \<lfloor>z\<rfloor>; d = z - of_int f
      in if d < 1 / 2 then f else if 1 / 2 < d then f + 1 else if even f then f else f + 1)"

definition toDouble :: "real \<Rightarrow> parsed" where
  "toDouble x =
     (let y = \<bar>x\<bar>;
          q = pow2 (exponent y - 52);
          r = of_int (roundHalfEven (y / q)) * q
      in if pow2 1024 \<le> r then (if x < 0 then NegInfinity else Infinity)
         else Finite (if x < 0 then - r else r))"

definition minus_double :: "number \<Rightarrow> number \<Rightarrow> parsed" where
  "minus_double a b = toDouble (a - b)"

fun Math_abs :: "parsed \<Rightarrow> parsed" where
  "Math_abs NaN = NaN"
| "Math_abs Infinity = Infinity"
| "Math_abs NegInfinity = Infinity"
| "Math_abs (Finite x) = Finite \<bar>x\<bar>"

text \<open>
  The platform's \<open>parseFloat\<close>: the decimal read by \<open>parseFloat\<close> above, rounded to a
  double.
\<close>

definition parseFloat_double :: "string \<Rightarrow> parsed" where
  "parseFloat_double s = (case parseFloat s of Finite v \<Rightarrow> toDouble v | other \<Rightarrow> other)"

text \<open>
  The results panel is rendered when there is a result. Its chart comes before the list
  and calls \<open>value.toFixed(1)\<close> on \<open>solarData.monthlyData[i]\<close> for each of the twelve
  months, which throws a \<open>TypeError\<close> on \<open>undefined\<close>, so with fewer than twelve
  monthly values the render throws and nothing of the panel is shown. Otherwise the
  third item of the list is rendered when \<open>tilt !== Math.round(solarData.optimalTilt)\<close>.
  \<open>improvementLine\<close> is the number \<open>Math.abs(tilt - solarData.optimalTilt)\<close>
  interpolated into that item, \<open>None\<close> when the item is not rendered.
\<close>

datatype renderError = TypeError

definition improvementLine :: "app \<Rightarrow> renderError + parsed option" where
  "improvementLine st =
     (case solarData st of
        None \<Rightarrow> Inr None
      | Some d \<Rightarrow>
          if length (monthlyData d) < 12 then Inl TypeError
          else if tilt st \<noteq> Math_round (optimalTilt d)
          then Inr (Some (Math_abs (minus_double (tilt st) (optimalTilt d))))
          else Inr None)"

subsection \<open>The user's actions\<close>

text \<open>
  What a user can do, each with what the browser hands to the handler: a click on the
  map, typing in a coordinate field (\<open>onChange\<close>), leaving one (\<open>onBlur\<close>), moving a
  slider, and pressing the button, which is disabled while \<open>loading\<close> is set or no
  position is selected. A calculation is one step: the button is disabled while a
  request is in flight. \<open>CalculateClick\<close> carries what the network answers.
\<close>

datatype event =
    MapClick "number \<times> number"
  | LatChange string
  | LngChange string
  | LatLngBlur
  | TiltChange number
  | AzimuthChange number
  | ShadingChange number
  | CalculateClick "string \<Rightarrow> (string \<times> string) list \<Rightarrow> reply"

fun step :: "(number \<Rightarrow> string) \<Rightarrow> (string \<Rightarrow> parsed) \<Rightarrow> event \<Rightarrow> app \<Rightarrow> app" where
  "step ts pf (MapClick pos) st = handlePositionChange ts pos st"
| "step ts pf (LatChange s) st = st\<lparr>lat := s\<rparr>"
| "step ts pf (LngChange s) st = st\<lparr>lng := s\<rparr>"
| "step ts pf LatLngBlur st = handleLatLngInput pf st"
| "step ts pf (TiltChange v) st = st\<lparr>tilt := v\<rparr>"
| "step ts pf (AzimuthChange v) st = st\<lparr>azimuth := v\<rparr>"
| "step ts pf (ShadingChange v) st = st\<lparr>shading := v\<rparr>"
| "step ts pf (CalculateClick fetch) st =
     (if loading st \<or> position st = None then st else calculateSolar ts fetch st)"

fun run :: "(number \<Rightarrow> string) \<Rightarrow> (string \<Rightarrow> parsed) \<Rightarrow> event list \<Rightarrow> app \<Rightarrow> app" where
  "run ts pf [] st = st"
| "run ts pf (e # es) st = run ts pf es (step ts pf e st)"

text \<open>
  Whether an action at a state is a calculation that the network answers with a body of
  the expected shape.
\<close>

definition succeeds :: "(number \<Rightarrow> string) \<Rightarrow> event \<Rightarrow> app \<Rightarrow> bool" where
  "succeeds ts e st =
     (case e of
        CalculateClick fetch \<Rightarrow>
          (case position st of
             None \<Rightarrow> False
           | Some pos \<Rightarrow>
               \<not> loading st \<and>
               (case fetch endpoint (params ts pos st) of Body monthly yearly \<Rightarrow> True | _ \<Rightarrow> False))
      | _ \<Rightarrow> False)"

text \<open>The requests among a list of effects.\<close>

fun requests :: "effect list \<Rightarrow> (string \<times> (string \<times> string) list) list" where
  "requests [] = []"
| "requests (Fetch url ps # es) = (url, ps) # requests es"
| "requests (_ # es) = requests es"

text \<open>
  The replies on which the body of \<open>try\<close> throws, and what it throws: the rejection of
  \<open>fetch\<close>, the \<open>Error\<close> the handler makes itself when the response is not \<open>ok\<close>,
  or what reading the body raised.
\<close>

definition failed :: "reply \<Rightarrow> bool" where
  "failed r = (case r of Body monthly yearly \<Rightarrow> False | _ \<Rightarrow> True)"

fun thrownBy :: "reply \<Rightarrow> thrown" where
  "thrownBy Rejects = FetchRejected"
| "thrownBy NotOk = ApiError ''PVGIS API Fehler''"
| "thrownBy _ = BodyError"

text \<open>
  A text in fixed notation with \<open>k\<close> decimal places: an optional minus sign, at least one
  digit, a point, and exactly \<open>k\<close> digits.
\<close>

definition fixedNotation :: "nat \<Rightarrow> string \<Rightarrow> bool" where
  "fixedNotation k s =
     (let u = (if s \<noteq> [] \<and> hd s = CHR ''-'' then tl s else s);
          ip = takeWhile isDigit u;
          r = dropWhile isDigit u
      in ip \<noteq> [] \<and> r \<noteq> [] \<and> hd r = CHR ''.'' \<and> length (tl r) = k \<and> list_all isDigit (tl r))"

text \<open>
  For the examples: the text of \<open>toString\<close> on a whole number below \<open>10^21\<close>, its
  decimal digits. The examples apply it to whole numbers only.
\<close>

definition wholeText :: "number \<Rightarrow> string" where
  "wholeText x = (if x < 0 then ''-'' else '''') @ digits (nat \<lfloor>\<bar>x\<bar>\<rfloor>)"

section \<open>Properties of calculateSolar\<close>

subsection \<open>The two ways a calculation with a position ends\<close>

lemma params_begin [simp]:
  "params ts pos (st\<lparr>loading := b, error := e\<rparr>) = params ts pos st"
  by (simp add: params_def)

lemma calculateSolar_Body:
  assumes "position st = Some pos"
    and "fetch endpoint (params ts pos st) = Body monthly yearly"
  shows "calculateSolar ts fetch st =
     st\<lparr>loading := False,
        error := (if yearly < 800 \<or> yearly > 2500 then plausibilityWarning ts yearly else ''''),
        solarData := Some \<lparr>yearlyIrradiation = yearly, monthlyData = monthly,
          optimalTilt = \<bar>fst pos\<bar>, optimalAzimuth = (if fst pos > 0 then 180 else 0),
          loss = shading st\<rparr>,
        effects := effects st @ Fetch endpoint (params ts pos st) #
          (if js_le (summerMonth pos monthly) (winterMonth pos monthly)
           then [ConsoleWarn seasonalNotice] else [])\<rparr>"
  using assms
  by (simp add: calculateSolar_def calculateSolar_begin_def calculateSolar_try_def
      calculateSolar_settle_def Let_def)

lemma calculateSolar_failed:
  assumes "position st = Some pos"
    and "failed (fetch endpoint (params ts pos st))"
  shows "calculateSolar ts fetch st =
     st\<lparr>loading := False, error := fetchFailedMessage,
        effects := effects st @
          [Fetch endpoint (params ts pos st),
           ConsoleError (thrownBy (fetch endpoint (params ts pos st)))]\<rparr>"
  using assms
  by (cases "fetch endpoint (params ts pos st)")
    (simp_all add: calculateSolar_def calculateSolar_begin_def calculateSolar_try_def
      calculateSolar_settle_def Let_def failed_def)

lemma not_failed_Body:
  assumes "\<not> failed r"
  obtains monthly yearly where "r = Body monthly yearly"
  using assms by (cases r) (simp_all add: failed_def)

lemma requests_append: "requests (xs @ ys) = requests xs @ requests ys"
  by (induction xs rule: requests.induct) simp_all


subsection \<open>Evaluating the examples\<close>

lemma digits_less_10: "n < 10 \<Longrightarrow> digits n = [digitChar n]"
  by (simp add: digits.simps)

lemma digits_ge_10: "10 \<le> n \<Longrightarrow> digits n = digits (n div 10) @ [digitChar (n mod 10)]"
  by (subst digits.simps) simp

lemma digitChar_values:
  "digitChar 0 = CHR ''0''" "digitChar 1 = CHR ''1''" "digitChar 2 = CHR ''2''"
  "digitChar 3 = CHR ''3''" "digitChar 4 = CHR ''4''" "digitChar 5 = CHR ''5''"
  "digitChar 6 = CHR ''6''" "digitChar 7 = CHR ''7''" "digitChar 8 = CHR ''8''"
  "digitChar 9 = CHR ''9''" "digitChar (Suc 0) = CHR ''1''"
  by (code_simp+)

lemmas eval_text = wholeText_def digits_less_10 digits_ge_10 digitChar_values

subsection \<open>The claims\<close>

text \<open>
  C4. When no position is selected, \<open>calculateSolar\<close> only sets the message that asks
  for a location: it makes no request (the effects stay those of before), and the stored
  result and the loading flag are left as they were.
\<close>

theorem calculateSolar_without_position:
  assumes "position st = None"
  shows "calculateSolar ts fetch st = st\<lparr>error := noLocationMessage\<rparr> \<and>
     error (calculateSolar ts fetch st) = ''Bitte waehlen Sie einen Standort auf der Karte.'' \<and>
     effects (calculateSolar ts fetch st) = effects st \<and>
     solarData (calculateSolar ts fetch st) = solarData st \<and>
     loading (calculateSolar ts fetch st) = loading st"
  using assms by (simp add: calculateSolar_def calculateSolar_begin_def noLocationMessage_def)

theorem calculateSolar_without_position_witness:
  "position initial = None \<and>
   calculateSolar wholeText (\<lambda>url ps. Body [] 1500) initial =
     initial\<lparr>error := ''Bitte waehlen Sie einen Standort auf der Karte.''\<rparr> \<and>
   requests (effects (calculateSolar wholeText (\<lambda>url ps. Body [] 1500) initial)) = []"
  using calculateSolar_without_position [of initial wholeText "\<lambda>url ps. Body [] 1500"]
  by (simp add: initial_def noLocationMessage_def)

text \<open>
  C1. A calculation with a position makes one request, to the PVGIS endpoint, with the
  query parameters \<open>lat\<close> and \<open>lon\<close> of the position, \<open>peakpower = 1\<close>,
  \<open>loss\<close> the shading, \<open>angle\<close> the tilt, \<open>aspect\<close> the azimuth minus 180,
  \<open>outputformat = json\<close> and \<open>pvtechchoice = crystSi\<close>, in this order and whatever the
  values of the three sliders are.
\<close>

theorem calculateSolar_request:
  assumes "position st = Some (la, lo)"
  shows "requests (effects (calculateSolar ts fetch st)) =
     requests (effects st) @
     [(endpoint,
       [(''lat'', ts la),
        (''lon'', ts lo),
        (''peakpower'', ''1''),
        (''loss'', ts (shading st)),
        (''angle'', ts (tilt st)),
        (''aspect'', ts (azimuth st - 180)),
        (''outputformat'', ''json''),
        (''pvtechchoice'', ''crystSi'')])]"
proof (cases "failed (fetch endpoint (params ts (la, lo) st))")
  case True
  with assms show ?thesis
    by (simp add: calculateSolar_failed requests_append params_def)
next
  case False
  then obtain monthly yearly where "fetch endpoint (params ts (la, lo) st) = Body monthly yearly"
    by (rule not_failed_Body)
  with assms show ?thesis
    by (simp add: calculateSolar_Body requests_append params_def)
qed

theorem calculateSolar_request_witness:
  "position (initial\<lparr>position := Some (48, 11), azimuth := 90, tilt := 20, shading := 5\<rparr>) =
     Some (48, 11) \<and>
   requests (effects (calculateSolar wholeText (\<lambda>url ps. NotOk)
     (initial\<lparr>position := Some (48, 11), azimuth := 90, tilt := 20, shading := 5\<rparr>))) =
     [(''https://re.jrc.ec.europa.eu/api/v5_2/PVcalc'',
       [(''lat'', ''48''), (''lon'', ''11''), (''peakpower'', ''1''), (''loss'', ''5''),
        (''angle'', ''20''), (''aspect'', ''-90''), (''outputformat'', ''json''),
        (''pvtechchoice'', ''crystSi'')])]"
  using calculateSolar_request [of "initial\<lparr>position := Some (48, 11), azimuth := 90, tilt := 20, shading := 5\<rparr>"
      48 11 wholeText "\<lambda>url ps. NotOk"]
  by (simp add: initial_def endpoint_def eval_text)

text \<open>
  C2. After a calculation that the network answers with a body, the stored result has
  \<open>optimalTilt\<close> the absolute value of the latitude and \<open>optimalAzimuth\<close> 180 for a
  latitude above zero and 0 otherwise, whatever the yearly and monthly figures are (so
  whatever the plausibility and the seasonal check find).
\<close>

theorem calculateSolar_optimal:
  assumes "position st = Some (L, lo)"
    and "fetch endpoint (params ts (L, lo) st) = Body monthly yearly"
  shows "map_option optimalTilt (solarData (calculateSolar ts fetch st)) = Some \<bar>L\<bar> \<and>
     map_option optimalAzimuth (solarData (calculateSolar ts fetch st)) =
       Some (if L > 0 then 180 else 0)"
  using assms by (simp add: calculateSolar_Body)

theorem calculateSolar_optimal_witness:
  "map_option optimalTilt (solarData (calculateSolar wholeText
      (\<lambda>url ps. Body [9, 8, 7, 6, 5, 4, 5, 6, 7, 8, 9, 10] 500)
      (initial\<lparr>position := Some (48, 11)\<rparr>))) = Some 48 \<and>
   map_option optimalAzimuth (solarData (calculateSolar wholeText
      (\<lambda>url ps. Body [9, 8, 7, 6, 5, 4, 5, 6, 7, 8, 9, 10] 500)
      (initial\<lparr>position := Some (48, 11)\<rparr>))) = Some 180 \<and>
   map_option optimalTilt (solarData (calculateSolar wholeText
      (\<lambda>url ps. Body [] 1500) (initial\<lparr>position := Some (- 33, 151)\<rparr>))) = Some 33 \<and>
   map_option optimalAzimuth (solarData (calculateSolar wholeText
      (\<lambda>url ps. Body [] 1500) (initial\<lparr>position := Some (- 33, 151)\<rparr>))) = Some 0"
  using
    calculateSolar_optimal [of "initial\<lparr>position := Some (48, 11)\<rparr>" 48 11
      "\<lambda>url ps. Body [9, 8, 7, 6, 5, 4, 5, 6, 7, 8, 9, 10] 500" wholeText
      "[9, 8, 7, 6, 5, 4, 5, 6, 7, 8, 9, 10]" 500]
    calculateSolar_optimal [of "initial\<lparr>position := Some (- 33, 151)\<rparr>" "- 33" 151
      "\<lambda>url ps. Body [] 1500" wholeText "[]" 1500]
  by (simp add: initial_def)




text \<open>
  C8. After a calculation at latitude \<open>L\<close> that the network answers with a body, the
  seasonal check shows in the console only. The notice is logged exactly when the
  summer value is at most the winter value, with June (index 5) the summer and December
  (index 11) the winter month for \<open>L > 0\<close> and the other way round otherwise. The stored
  result, the message and the loading flag are given by the position, the shading and
  the body alone, and every other piece of the state is as before.
\<close>

theorem calculateSolar_seasonal:
  assumes "position st = Some (L, lo)"
    and "fetch endpoint (params ts (L, lo) st) = Body monthly yearly"
  shows "effects (calculateSolar ts fetch st) =
       effects st @ Fetch endpoint (params ts (L, lo) st) #
         (if (if L > 0 then js_le (at_index monthly 5) (at_index monthly 11)
              else js_le (at_index monthly 11) (at_index monthly 5))
          then [ConsoleWarn ''Saisonale Verteilung unerwartet''] else []) \<and>
     (calculateSolar ts fetch st)\<lparr>effects := []\<rparr> =
       st\<lparr>loading := False,
          error := (if yearly < 800 \<or> yearly > 2500 then plausibilityWarning ts yearly else ''''),
          solarData := Some \<lparr>yearlyIrradiation = yearly, monthlyData = monthly,
            optimalTilt = \<bar>L\<bar>, optimalAzimuth = (if L > 0 then 180 else 0),
            loss = shading st\<rparr>,
          effects := []\<rparr>"
  using assms
  by (simp add: calculateSolar_Body summerMonth_def winterMonth_def isNorthernHemisphere_def
      seasonalNotice_def)

theorem calculateSolar_seasonal_witness:
  "effects (calculateSolar wholeText
      (\<lambda>url ps. Body [50, 70, 110, 140, 160, 40, 175, 160, 125, 90, 55, 45] 1500)
      (initial\<lparr>position := Some (48, 11)\<rparr>)) =
     [Fetch endpoint (params wholeText (48, 11) (initial\<lparr>position := Some (48, 11)\<rparr>)),
      ConsoleWarn ''Saisonale Verteilung unerwartet''] \<and>
   effects (calculateSolar wholeText
      (\<lambda>url ps. Body [50, 70, 110, 140, 160, 170, 175, 160, 125, 90, 55, 45] 1500)
      (initial\<lparr>position := Some (48, 11)\<rparr>)) =
     [Fetch endpoint (params wholeText (48, 11) (initial\<lparr>position := Some (48, 11)\<rparr>))] \<and>
   effects (calculateSolar wholeText
      (\<lambda>url ps. Body [50, 70, 110, 140, 160, 170, 175, 160, 125, 90, 55, 45] 1500)
      (initial\<lparr>position := Some (- 33, 151)\<rparr>)) =
     [Fetch endpoint (params wholeText (- 33, 151) (initial\<lparr>position := Some (- 33, 151)\<rparr>)),
      ConsoleWarn ''Saisonale Verteilung unerwartet''] \<and>
   error (calculateSolar wholeText
      (\<lambda>url ps. Body [50, 70, 110, 140, 160, 40, 175, 160, 125, 90, 55, 45] 1500)
      (initial\<lparr>position := Some (48, 11)\<rparr>)) = '''' \<and>
   solarData (calculateSolar wholeText
      (\<lambda>url ps. Body [50, 70, 110, 140, 160, 40, 175, 160, 125, 90, 55, 45] 1500)
      (initial\<lparr>position := Some (48, 11)\<rparr>)) =
     Some \<lparr>yearlyIrradiation = 1500,
       monthlyData = [50, 70, 110, 140, 160, 40, 175, 160, 125, 90, 55, 45],
       optimalTilt = 48, optimalAzimuth = 180, loss = 0\<rparr>"
proof -
  let ?anomalous = "[50, 70, 110, 140, 160, 40, 175, 160, 125, 90, 55, 45] :: number list"
  let ?usual = "[50, 70, 110, 140, 160, 170, 175, 160, 125, 90, 55, 45] :: number list"
  let ?north = "initial\<lparr>position := Some (48, 11)\<rparr>"
  let ?south = "initial\<lparr>position := Some (- 33, 151)\<rparr>"
  have north: "position ?north = Some (48, 11)" and south: "position ?south = Some (- 33, 151)"
    by simp_all
  note a = calculateSolar_seasonal [OF north, of "\<lambda>url ps. Body ?anomalous 1500" wholeText
      ?anomalous 1500]
  note b = calculateSolar_seasonal [OF north, of "\<lambda>url ps. Body ?usual 1500" wholeText
      ?usual 1500]
  note c = calculateSolar_seasonal [OF south, of "\<lambda>url ps. Body ?usual 1500" wholeText
      ?usual 1500]
  have a1: "effects (calculateSolar wholeText (\<lambda>url ps. Body ?anomalous 1500) ?north) =
      [Fetch endpoint (params wholeText (48, 11) ?north),
       ConsoleWarn ''Saisonale Verteilung unerwartet'']"
    using a by (simp add: initial_def at_index_def)
  have b1: "effects (calculateSolar wholeText (\<lambda>url ps. Body ?usual 1500) ?north) =
      [Fetch endpoint (params wholeText (48, 11) ?north)]"
    using b by (simp add: initial_def at_index_def)
  have c1: "effects (calculateSolar wholeText (\<lambda>url ps. Body ?usual 1500) ?south) =
      [Fetch endpoint (params wholeText (- 33, 151) ?south),
       ConsoleWarn ''Saisonale Verteilung unerwartet'']"
    using c by (simp add: initial_def at_index_def)
  have "error ((calculateSolar wholeText (\<lambda>url ps. Body ?anomalous 1500) ?north)\<lparr>effects := []\<rparr>) = ''''"
    and "solarData ((calculateSolar wholeText (\<lambda>url ps. Body ?anomalous 1500) ?north)\<lparr>effects := []\<rparr>) =
      Some \<lparr>yearlyIrradiation = 1500, monthlyData = ?anomalous,
        optimalTilt = 48, optimalAzimuth = 180, loss = 0\<rparr>"
    using a by (simp_all add: initial_def)
  then have a2: "error (calculateSolar wholeText (\<lambda>url ps. Body ?anomalous 1500) ?north) = ''''"
    and a3: "solarData (calculateSolar wholeText (\<lambda>url ps. Body ?anomalous 1500) ?north) =
      Some \<lparr>yearlyIrradiation = 1500, monthlyData = ?anomalous,
        optimalTilt = 48, optimalAzimuth = 180, loss = 0\<rparr>"
    by simp_all
  from a1 b1 c1 a2 a3 show ?thesis by blast
qed

lemma calculateSolar_error:
  assumes "position st = Some pos"
  shows "error (calculateSolar ts fetch st) =
     (case fetch endpoint (params ts pos st) of
        Body monthly yearly \<Rightarrow>
          if yearly < 800 \<or> yearly > 2500 then plausibilityWarning ts yearly else ''''
      | _ \<Rightarrow> fetchFailedMessage)"
proof (cases "failed (fetch endpoint (params ts pos st))")
  case True
  with assms show ?thesis
    by (simp add: calculateSolar_failed) (simp add: failed_def split: reply.splits)
next
  case False
  then obtain monthly yearly where "fetch endpoint (params ts pos st) = Body monthly yearly"
    by (rule not_failed_Body)
  with assms show ?thesis
    by (simp add: calculateSolar_Body)
qed

lemma calculateSolar_not_loading:
  assumes "position st = Some pos"
  shows "\<not> loading (calculateSolar ts fetch st)"
proof (cases "failed (fetch endpoint (params ts pos st))")
  case True
  with assms show ?thesis
    by (simp add: calculateSolar_failed)
next
  case False
  then obtain monthly yearly where "fetch endpoint (params ts pos st) = Body monthly yearly"
    by (rule not_failed_Body)
  with assms show ?thesis
    by (simp add: calculateSolar_Body)
qed

text \<open>
  C10. A calculation with a position sets the message to the empty text and the loading
  flag before it makes its request; the message after the calculation is the failure
  message, the plausibility warning or empty according to the reply alone, so the
  message of before does not show in it; and the loading flag is off after it.
\<close>

theorem calculateSolar_message_reset:
  assumes "position st = Some pos"
  shows "(\<exists>st1. calculateSolar_begin st = Inr (pos, st1) \<and> error st1 = '''' \<and> loading st1 \<and>
        effects st1 = effects st \<and>
        calculateSolar ts fetch st = calculateSolar_settle (calculateSolar_try ts fetch pos st1)) \<and>
     error (calculateSolar ts fetch st) =
       (case fetch endpoint (params ts pos st) of
          Body monthly yearly \<Rightarrow>
            if yearly < 800 \<or> yearly > 2500 then plausibilityWarning ts yearly else ''''
        | _ \<Rightarrow> fetchFailedMessage) \<and>
     error (calculateSolar ts fetch (st\<lparr>error := e\<rparr>)) = error (calculateSolar ts fetch st) \<and>
     \<not> loading (calculateSolar ts fetch st)"
proof -
  let ?st1 = "st\<lparr>loading := True, error := ''''\<rparr>"
  have "calculateSolar_begin st = Inr (pos, ?st1)"
    using assms by (simp add: calculateSolar_begin_def)
  then have c1: "\<exists>st1. calculateSolar_begin st = Inr (pos, st1) \<and> error st1 = '''' \<and> loading st1 \<and>
      effects st1 = effects st \<and>
      calculateSolar ts fetch st = calculateSolar_settle (calculateSolar_try ts fetch pos st1)"
    by (intro exI [of _ ?st1]) (simp add: calculateSolar_def)
  have c2: "error (calculateSolar ts fetch st) =
      (case fetch endpoint (params ts pos st) of
         Body monthly yearly \<Rightarrow>
           if yearly < 800 \<or> yearly > 2500 then plausibilityWarning ts yearly else ''''
       | _ \<Rightarrow> fetchFailedMessage)"
    using assms by (rule calculateSolar_error)
  have "position (st\<lparr>error := e\<rparr>) = Some pos"
    using assms by simp
  then have c3: "error (calculateSolar ts fetch (st\<lparr>error := e\<rparr>)) =
      error (calculateSolar ts fetch st)"
    by (simp add: calculateSolar_error [of _ pos] c2 params_def)
  have c4: "\<not> loading (calculateSolar ts fetch st)"
    using assms by (rule calculateSolar_not_loading)
  from c1 c2 c3 c4 show ?thesis by blast
qed

theorem calculateSolar_message_reset_witness:
  "error (calculateSolar wholeText
      (\<lambda>url ps. Body [50, 70, 110, 140, 160, 170, 175, 160, 125, 90, 55, 45] 1500)
      (initial\<lparr>position := Some (48, 11), error := fetchFailedMessage\<rparr>)) = '''' \<and>
   \<not> loading (calculateSolar wholeText
      (\<lambda>url ps. Body [50, 70, 110, 140, 160, 170, 175, 160, 125, 90, 55, 45] 1500)
      (initial\<lparr>position := Some (48, 11), error := fetchFailedMessage\<rparr>)) \<and>
   error (calculateSolar wholeText (\<lambda>url ps. Rejects)
      (initial\<lparr>position := Some (48, 11), error := plausibilityWarning wholeText 500\<rparr>)) =
     ''Fehler beim Abrufen der Solardaten. Bitte versuchen Sie es erneut.'' \<and>
   \<not> loading (calculateSolar wholeText (\<lambda>url ps. Rejects)
      (initial\<lparr>position := Some (48, 11), error := plausibilityWarning wholeText 500\<rparr>))"
  using
    calculateSolar_message_reset [of "initial\<lparr>position := Some (48, 11), error := fetchFailedMessage\<rparr>"
      "(48, 11)" wholeText
      "\<lambda>url ps. Body [50, 70, 110, 140, 160, 170, 175, 160, 125, 90, 55, 45] 1500"]
    calculateSolar_message_reset [of
      "initial\<lparr>position := Some (48, 11), error := plausibilityWarning wholeText 500\<rparr>"
      "(48, 11)" wholeText "\<lambda>url ps. Rejects"]
  by (simp add: initial_def fetchFailedMessage_def)

subsection \<open>Where a stored result comes from\<close>

lemma accepted_finite:
  assumes "accepted latNum lngNum"
  obtains a b where "latNum = Finite a" and "lngNum = Finite b"
    and "- 90 \<le> a" and "a \<le> 90" and "- 180 \<le> b" and "b \<le> 180"
  using assms by (cases latNum; cases lngNum) (simp_all add: accepted_def)

lemma handleLatLngInput_cases:
  "handleLatLngInput pf st = st \<or> (\<exists>p. handleLatLngInput pf st = st\<lparr>position := Some p\<rparr>)"
  by (auto simp: handleLatLngInput_def Let_def split: parsed.splits)

lemma handleLatLngInput_solarData: "solarData (handleLatLngInput pf st) = solarData st"
  using handleLatLngInput_cases [of pf st] by auto

lemma calculateSolar_solarData_failed:
  assumes "position st = Some pos" and "failed (fetch endpoint (params ts pos st))"
  shows "solarData (calculateSolar ts fetch st) = solarData st"
  using assms by (simp add: calculateSolar_failed)

lemma step_solarData:
  assumes "solarData (step ts pf e st) \<noteq> None"
  shows "solarData st \<noteq> None \<or> succeeds ts e st"
proof (cases e)
  case (CalculateClick fetch)
  show ?thesis
  proof (cases "loading st \<or> position st = None")
    case True
    with assms CalculateClick show ?thesis by simp
  next
    case False
    then obtain pos where pos: "position st = Some pos" and idle: "\<not> loading st"
      by auto
    show ?thesis
    proof (cases "failed (fetch endpoint (params ts pos st))")
      case True
      with assms CalculateClick pos idle show ?thesis
        by (simp add: calculateSolar_solarData_failed)
    next
      case False
      then obtain monthly yearly where "fetch endpoint (params ts pos st) = Body monthly yearly"
        by (rule not_failed_Body)
      with CalculateClick pos idle show ?thesis
        by (simp add: succeeds_def)
    qed
  qed
qed (use assms in \<open>simp_all add: handlePositionChange_def handleLatLngInput_solarData\<close>)

lemma run_solarData:
  assumes "solarData (run ts pf evs st) \<noteq> None"
  shows "solarData st \<noteq> None \<or> (\<exists>i<length evs. succeeds ts (evs ! i) (run ts pf (take i evs) st))"
  using assms
proof (induction evs arbitrary: st)
  case Nil
  then show ?case by simp
next
  case (Cons e es)
  from Cons.prems have "solarData (run ts pf es (step ts pf e st)) \<noteq> None"
    by simp
  then consider "solarData (step ts pf e st) \<noteq> None"
    | i where "i < length es" and "succeeds ts (es ! i) (run ts pf (take i es) (step ts pf e st))"
    using Cons.IH by blast
  then show ?case
  proof cases
    case 1
    then have "solarData st \<noteq> None \<or> succeeds ts e st"
      by (rule step_solarData)
    then show ?thesis
    proof
      assume "succeeds ts e st"
      then have "0 < length (e # es) \<and> succeeds ts ((e # es) ! 0) (run ts pf (take 0 (e # es)) st)"
        by simp
      then show ?thesis by blast
    qed simp
  next
    case 2
    then have "Suc i < length (e # es) \<and>
        succeeds ts ((e # es) ! Suc i) (run ts pf (take (Suc i) (e # es)) st)"
      by simp
    then show ?thesis by blast
  qed
qed

text \<open>
  C6, as the code has it. A calculation that fails (the request is rejected, the status
  is not a success, or reading the body throws) leaves the stored result as it was: none
  if there was none, the earlier one if there was one. A calculation answered with a
  body replaces the stored result by one made of that body, the position and the
  shading. A result is stored only after some calculation was answered with a body.
\<close>

theorem calculateSolar_result_kept_or_replaced:
  "(position st = Some pos \<and> failed (fetch endpoint (params ts pos st)) \<longrightarrow>
      solarData (calculateSolar ts fetch st) = solarData st) \<and>
   (position st = Some pos \<and> fetch endpoint (params ts pos st) = Body monthly yearly \<longrightarrow>
      solarData (calculateSolar ts fetch st) =
        Some \<lparr>yearlyIrradiation = yearly, monthlyData = monthly, optimalTilt = \<bar>fst pos\<bar>,
          optimalAzimuth = (if fst pos > 0 then 180 else 0), loss = shading st\<rparr>) \<and>
   (solarData (run ts pf evs initial) \<noteq> None \<longrightarrow>
      (\<exists>i<length evs. succeeds ts (evs ! i) (run ts pf (take i evs) initial)))"
proof (intro conjI impI)
  assume "position st = Some pos \<and> failed (fetch endpoint (params ts pos st))"
  then show "solarData (calculateSolar ts fetch st) = solarData st"
    by (simp add: calculateSolar_solarData_failed)
next
  assume "position st = Some pos \<and> fetch endpoint (params ts pos st) = Body monthly yearly"
  then show "solarData (calculateSolar ts fetch st) =
      Some \<lparr>yearlyIrradiation = yearly, monthlyData = monthly, optimalTilt = \<bar>fst pos\<bar>,
        optimalAzimuth = (if fst pos > 0 then 180 else 0), loss = shading st\<rparr>"
    by (simp add: calculateSolar_Body)
next
  assume "solarData (run ts pf evs initial) \<noteq> None"
  then have "solarData initial \<noteq> None \<or>
      (\<exists>i<length evs. succeeds ts (evs ! i) (run ts pf (take i evs) initial))"
    by (rule run_solarData)
  then show "\<exists>i<length evs. succeeds ts (evs ! i) (run ts pf (take i evs) initial)"
    by (simp add: initial_def)
qed

text \<open>
  A failed calculation after a successful one: the result of the first is still stored.
\<close>

theorem failed_calculation_retains_result:
  "failed NotOk \<and>
   position (run wholeText parseFloat
      [MapClick (48, 11),
       CalculateClick (\<lambda>url ps. Body [50, 70, 110, 140, 160, 170, 175, 160, 125, 90, 55, 45] 1184)]
      initial) = Some (48, 11) \<and>
   solarData (calculateSolar wholeText (\<lambda>url ps. NotOk)
     (run wholeText parseFloat
        [MapClick (48, 11),
         CalculateClick (\<lambda>url ps. Body [50, 70, 110, 140, 160, 170, 175, 160, 125, 90, 55, 45] 1184)]
        initial)) =
     Some \<lparr>yearlyIrradiation = 1184,
       monthlyData = [50, 70, 110, 140, 160, 170, 175, 160, 125, 90, 55, 45],
       optimalTilt = 48, optimalAzimuth = 180, loss = 0\<rparr> \<and>
   solarData (calculateSolar wholeText (\<lambda>url ps. NotOk)
     (run wholeText parseFloat
        [MapClick (48, 11),
         CalculateClick (\<lambda>url ps. Body [50, 70, 110, 140, 160, 170, 175, 160, 125, 90, 55, 45] 1184)]
        initial)) \<noteq> None"
  by (simp add: failed_def initial_def handlePositionChange_def calculateSolar_Body [of _ "(48, 11)"]
      calculateSolar_failed [of _ "(48, 11)"])

theorem calculateSolar_result_kept_or_replaced_witness:
  "solarData (calculateSolar wholeText (\<lambda>url ps. Rejects) (initial\<lparr>position := Some (48, 11)\<rparr>)) =
     None \<and>
   solarData (calculateSolar wholeText (\<lambda>url ps. BadBody)
     (initial\<lparr>position := Some (48, 11),
        solarData := Some \<lparr>yearlyIrradiation = 1184, monthlyData = [], optimalTilt = 51,
          optimalAzimuth = 180, loss = 0\<rparr>\<rparr>)) =
     Some \<lparr>yearlyIrradiation = 1184, monthlyData = [], optimalTilt = 51,
       optimalAzimuth = 180, loss = 0\<rparr> \<and>
   solarData (calculateSolar wholeText (\<lambda>url ps. Body [1, 2] 900)
     (initial\<lparr>position := Some (- 33, 151), shading := 10,
        solarData := Some \<lparr>yearlyIrradiation = 1184, monthlyData = [], optimalTilt = 51,
          optimalAzimuth = 180, loss = 0\<rparr>\<rparr>)) =
     Some \<lparr>yearlyIrradiation = 900, monthlyData = [1, 2], optimalTilt = 33,
       optimalAzimuth = 0, loss = 10\<rparr> \<and>
   (\<exists>i<2. succeeds wholeText
      ([MapClick (48, 11), CalculateClick (\<lambda>url ps. Body [1, 2] 900)] ! i)
      (run wholeText parseFloat (take i [MapClick (48, 11), CalculateClick (\<lambda>url ps. Body [1, 2] 900)])
         initial))"
proof -
  let ?d = "\<lparr>yearlyIrradiation = 1184, monthlyData = [], optimalTilt = 51,
     optimalAzimuth = 180, loss = 0\<rparr> :: SolarData"
  let ?evs = "[MapClick (48, 11), CalculateClick (\<lambda>url ps. Body [1, 2] 900)]"
  have a: "solarData (calculateSolar wholeText (\<lambda>url ps. Rejects)
      (initial\<lparr>position := Some (48, 11)\<rparr>)) = None"
    using calculateSolar_result_kept_or_replaced [of "initial\<lparr>position := Some (48, 11)\<rparr>"
        "(48, 11)" "\<lambda>url ps. Rejects" wholeText "[]" 0 parseFloat "[]"]
    by (simp add: failed_def initial_def)
  have b: "solarData (calculateSolar wholeText (\<lambda>url ps. BadBody)
      (initial\<lparr>position := Some (48, 11), solarData := Some ?d\<rparr>)) = Some ?d"
    using calculateSolar_result_kept_or_replaced [of
        "initial\<lparr>position := Some (48, 11), solarData := Some ?d\<rparr>"
        "(48, 11)" "\<lambda>url ps. BadBody" wholeText "[]" 0 parseFloat "[]"]
    by (simp add: failed_def initial_def)
  have c: "solarData (calculateSolar wholeText (\<lambda>url ps. Body [1, 2] 900)
      (initial\<lparr>position := Some (- 33, 151), shading := 10, solarData := Some ?d\<rparr>)) =
      Some \<lparr>yearlyIrradiation = 900, monthlyData = [1, 2], optimalTilt = 33,
        optimalAzimuth = 0, loss = 10\<rparr>"
    using calculateSolar_result_kept_or_replaced [of
        "initial\<lparr>position := Some (- 33, 151), shading := 10, solarData := Some ?d\<rparr>"
        "(- 33, 151)" "\<lambda>url ps. Body [1, 2] 900" wholeText "[1, 2]" 900 parseFloat "[]"]
    by (simp add: initial_def)
  have "solarData (run wholeText parseFloat ?evs initial) \<noteq> None"
    by (simp add: initial_def handlePositionChange_def calculateSolar_Body [of _ "(48, 11)"])
  then have "\<exists>i<length ?evs. succeeds wholeText (?evs ! i) (run wholeText parseFloat (take i ?evs) initial)"
    using calculateSolar_result_kept_or_replaced [of initial "(48, 11)" "\<lambda>url ps. Rejects"
        wholeText "[]" 0 parseFloat ?evs]
    by blast
  then have d: "\<exists>i<2. succeeds wholeText (?evs ! i) (run wholeText parseFloat (take i ?evs) initial)"
    by (simp add: numeral_2_eq_2)
  from a b c d show ?thesis by blast
qed

section \<open>Properties of the coordinate handlers\<close>

lemma parseFloat_examples:
  "parseFloat ''48.5'' = Finite 48.5"
  "parseFloat ''11.25'' = Finite 11.25"
  "parseFloat ''-33'' = Finite (- 33)"
  "parseFloat ''abc'' = NaN"
  "parseFloat '''' = NaN"
  "parseFloat ''91'' = Finite 91"
  "parseFloat ''-180.5'' = Finite (- 180.5)"
  "parseFloat ''1e2'' = Finite 100"
  "parseFloat ''Infinity'' = Infinity"
  "parseFloat '' 12abc'' = Finite 12"
  by (simp_all add: parseFloat_def signOf_def isWhiteSpace_def isDigit_def digitsValue_def
      exponentPart_def scale10_def Let_def)

text \<open>
  C3. \<open>handleLatLngInput\<close> replaces the position by the pair read from the two text
  fields when the parser reads a finite number from each, the first from -90 to 90 and
  the second from -180 to 180. In every other case (a field from which no number is
  read, or a number out of its range) it leaves the whole state as it was. It never
  changes the message. This holds for every parser \<open>pf\<close>, so for \<open>parseFloat\<close> with
  its rounding too.
\<close>

theorem handleLatLngInput_position:
  "(\<forall>a b. pf (lat st) = Finite a \<and> pf (lng st) = Finite b \<and>
        - 90 \<le> a \<and> a \<le> 90 \<and> - 180 \<le> b \<and> b \<le> 180 \<longrightarrow>
      handleLatLngInput pf st = st\<lparr>position := Some (a, b)\<rparr>) \<and>
   ((\<nexists>a b. pf (lat st) = Finite a \<and> pf (lng st) = Finite b \<and>
        - 90 \<le> a \<and> a \<le> 90 \<and> - 180 \<le> b \<and> b \<le> 180) \<longrightarrow>
      handleLatLngInput pf st = st) \<and>
   error (handleLatLngInput pf st) = error st"
proof (intro conjI allI impI)
  fix a b
  assume "pf (lat st) = Finite a \<and> pf (lng st) = Finite b \<and>
      - 90 \<le> a \<and> a \<le> 90 \<and> - 180 \<le> b \<and> b \<le> 180"
  then show "handleLatLngInput pf st = st\<lparr>position := Some (a, b)\<rparr>"
    by (simp add: handleLatLngInput_def accepted_def)
next
  assume none: "\<nexists>a b. pf (lat st) = Finite a \<and> pf (lng st) = Finite b \<and>
      - 90 \<le> a \<and> a \<le> 90 \<and> - 180 \<le> b \<and> b \<le> 180"
  have "\<not> accepted (pf (lat st)) (pf (lng st))"
  proof
    assume "accepted (pf (lat st)) (pf (lng st))"
    then obtain a b where "pf (lat st) = Finite a" and "pf (lng st) = Finite b"
      and "- 90 \<le> a" and "a \<le> 90" and "- 180 \<le> b" and "b \<le> 180"
      by (rule accepted_finite)
    with none show False by blast
  qed
  then show "handleLatLngInput pf st = st"
    by (simp add: handleLatLngInput_def)
next
  show "error (handleLatLngInput pf st) = error st"
    using handleLatLngInput_cases [of pf st] by auto
qed

theorem handleLatLngInput_position_witness:
  "handleLatLngInput parseFloat (initial\<lparr>lat := ''48.5'', lng := ''11.25''\<rparr>) =
     initial\<lparr>lat := ''48.5'', lng := ''11.25'', position := Some (48.5, 11.25)\<rparr> \<and>
   handleLatLngInput parseFloat (initial\<lparr>lat := ''abc'', lng := ''11.25'', position := Some (1, 2)\<rparr>) =
     initial\<lparr>lat := ''abc'', lng := ''11.25'', position := Some (1, 2)\<rparr> \<and>
   handleLatLngInput parseFloat (initial\<lparr>lat := ''91'', lng := ''11.25'', position := Some (1, 2)\<rparr>) =
     initial\<lparr>lat := ''91'', lng := ''11.25'', position := Some (1, 2)\<rparr> \<and>
   handleLatLngInput parseFloat (initial\<lparr>lat := ''48.5'', lng := ''-180.5'', position := Some (1, 2)\<rparr>) =
     initial\<lparr>lat := ''48.5'', lng := ''-180.5'', position := Some (1, 2)\<rparr> \<and>
   handleLatLngInput parseFloat (initial\<lparr>lat := ''48.5'', lng := '''', position := Some (1, 2)\<rparr>) =
     initial\<lparr>lat := ''48.5'', lng := '''', position := Some (1, 2)\<rparr>"
  using
    handleLatLngInput_position [of parseFloat "initial\<lparr>lat := ''48.5'', lng := ''11.25''\<rparr>"]
    handleLatLngInput_position [of parseFloat "initial\<lparr>lat := ''abc'', lng := ''11.25'', position := Some (1, 2)\<rparr>"]
    handleLatLngInput_position [of parseFloat "initial\<lparr>lat := ''91'', lng := ''11.25'', position := Some (1, 2)\<rparr>"]
    handleLatLngInput_position [of parseFloat "initial\<lparr>lat := ''48.5'', lng := ''-180.5'', position := Some (1, 2)\<rparr>"]
    handleLatLngInput_position [of parseFloat "initial\<lparr>lat := ''48.5'', lng := '''', position := Some (1, 2)\<rparr>"]
  by (simp add: parseFloat_examples initial_def)

subsection \<open>The text of toFixed\<close>

lemma isDigit_digitChar: "d < 10 \<Longrightarrow> isDigit (digitChar d)"
  by (simp add: isDigit_def digitChar_def)

lemma value_digitChar: "d < 10 \<Longrightarrow> (of_char (digitChar d) :: nat) - 48 = d"
  by (simp add: digitChar_def)

lemma digits_not_empty: "digits n \<noteq> []"
  by (subst digits.simps) simp

lemma digits_all: "list_all isDigit (digits n)"
proof (induction n rule: digits.induct)
  case (1 n)
  show ?case
  proof (cases "n < 10")
    case True
    then show ?thesis by (simp add: digits_less_10 isDigit_digitChar)
  next
    case False
    with "1" show ?thesis by (simp add: digits_ge_10 isDigit_digitChar)
  qed
qed

lemma digitsValue_snoc: "digitsValue (ds @ [c]) = 10 * digitsValue ds + (of_char c - 48)"
  by (simp add: digitsValue_def)

lemma digitsValue_append:
  "digitsValue (xs @ ys) = digitsValue xs * 10 ^ length ys + digitsValue ys"
proof (induction ys rule: rev_induct)
  case Nil
  show ?case by (simp add: digitsValue_def)
next
  case (snoc c ys)
  have "digitsValue (xs @ ys @ [c]) = 10 * digitsValue (xs @ ys) + (of_char c - 48)"
    using digitsValue_snoc [of "xs @ ys" c] by simp
  then show ?case
    by (simp add: snoc.IH digitsValue_snoc algebra_simps)
qed

lemma digitsValue_digits: "digitsValue (digits n) = n"
proof (induction n rule: digits.induct)
  case (1 n)
  show ?case
  proof (cases "n < 10")
    case True
    then show ?thesis
      by (simp add: digits_less_10 digitsValue_def value_digitChar)
  next
    case False
    with "1" show ?thesis
      by (simp add: digits_ge_10 digitsValue_snoc value_digitChar)
  qed
qed

lemma digitsValue_zeros: "digitsValue (replicate k (CHR ''0'')) = 0"
proof (induction k)
  case 0
  show ?case by (simp add: digitsValue_def)
next
  case (Suc k)
  have "replicate (Suc k) (CHR ''0'') = replicate k (CHR ''0'') @ [CHR ''0'']"
    by (simp add: replicate_append_same)
  then have "digitsValue (replicate (Suc k) (CHR ''0'')) =
      10 * digitsValue (replicate k (CHR ''0'')) + (of_char (CHR ''0'') - 48)"
    by (simp only: digitsValue_snoc)
  with Suc.IH show ?case by simp
qed

lemma isDigit_zero: "isDigit (CHR ''0'')"
  by (simp add: isDigit_def)

lemma not_isDigit_point: "\<not> isDigit (CHR ''.'')"
  by (simp add: isDigit_def)

text \<open>
  Below \<open>10^21\<close> and for at least one decimal place, the text of \<open>toFixed\<close> is the sign,
  the digits before the point and the \<open>f\<close> digits after it, and the digits together are
  those of the number scaled by \<open>10^f\<close> and rounded.
\<close>

lemma toFixed_shape:
  assumes "f \<noteq> 0" and "\<bar>x\<bar> < 10 ^ 21"
  obtains ip fp where
    "toFixed ts f x = (if x < 0 then ''-'' else '''') @ ip @ ''.'' @ fp"
    and "ip \<noteq> []" and "list_all isDigit ip" and "list_all isDigit fp" and "length fp = f"
    and "digitsValue (ip @ fp) = nat \<lfloor>\<bar>x\<bar> * 10 ^ f + 1 / 2\<rfloor>"
proof -
  define n where "n = nat \<lfloor>\<bar>x\<bar> * 10 ^ f + 1 / 2\<rfloor>"
  define m where "m = (if length (digits n) \<le> f
    then replicate (f + 1 - length (digits n)) (CHR ''0'') @ digits n else digits n)"
  have all: "list_all isDigit m"
    using digits_all [of n] by (simp add: m_def list_all_iff isDigit_zero)
  have len: "f < length m"
    by (auto simp: m_def)
  have val: "digitsValue m = n"
    by (simp add: m_def digitsValue_append digitsValue_zeros digitsValue_digits)
  have shape: "toFixed ts f x =
      (if x < 0 then ''-'' else '''') @ take (length m - f) m @ ''.'' @ drop (length m - f) m"
    using assms by (simp add: toFixed_def Let_def m_def n_def)
  show thesis
  proof (rule that [of "take (length m - f) m" "drop (length m - f) m"])
    show "toFixed ts f x =
        (if x < 0 then ''-'' else '''') @ take (length m - f) m @ ''.'' @ drop (length m - f) m"
      by (rule shape)
    show "take (length m - f) m \<noteq> []"
      using len by auto
    show "list_all isDigit (take (length m - f) m)"
      using all by (auto simp: list_all_iff dest: in_set_takeD)
    show "list_all isDigit (drop (length m - f) m)"
      using all by (auto simp: list_all_iff dest: in_set_dropD)
    show "length (drop (length m - f) m) = f"
      using len by simp
    show "digitsValue (take (length m - f) m @ drop (length m - f) m) =
        nat \<lfloor>\<bar>x\<bar> * 10 ^ f + 1 / 2\<rfloor>"
      by (simp add: val n_def)
  qed
qed

lemma takeWhile_digits:
  assumes "list_all isDigit ds" and "rest = [] \<or> \<not> isDigit (hd rest)"
  shows "takeWhile isDigit (ds @ rest) = ds" and "dropWhile isDigit (ds @ rest) = rest"
proof -
  have r: "takeWhile isDigit rest = []" "dropWhile isDigit rest = rest"
    using assms(2) by (cases rest; simp)+
  from assms(1) show "takeWhile isDigit (ds @ rest) = ds"
    by (simp add: takeWhile_append2 list_all_iff r)
  from assms(1) show "dropWhile isDigit (ds @ rest) = rest"
    by (simp add: dropWhile_append2 list_all_iff r)
qed

lemma fixedNotation_shape:
  assumes "ip \<noteq> []" and "list_all isDigit ip" and "list_all isDigit fp"
  shows "fixedNotation (length fp) ((if neg then ''-'' else '''') @ ip @ ''.'' @ fp)"
proof -
  have nd: "hd ip \<noteq> CHR ''-''"
    using assms(1,2) by (cases ip) (auto simp: isDigit_def)
  have u: "(let s = (if neg then ''-'' else '''') @ ip @ ''.'' @ fp
            in if s \<noteq> [] \<and> hd s = CHR ''-'' then tl s else s) = ip @ ''.'' @ fp"
    using assms(1) nd by (cases neg) (simp_all add: Let_def)
  have t: "takeWhile isDigit (ip @ ''.'' @ fp) = ip" "dropWhile isDigit (ip @ ''.'' @ fp) = ''.'' @ fp"
    using assms(2) by (simp_all add: takeWhile_digits not_isDigit_point)
  show ?thesis
    using u t assms by (simp add: fixedNotation_def Let_def not_isDigit_point)
qed

text \<open>\<open>parseFloat\<close> reads a text in fixed notation back as the number its digits denote.\<close>

lemma parseFloat_fixed:
  assumes "ip \<noteq> []" and "list_all isDigit ip" and "list_all isDigit fp"
  shows "parseFloat ((if neg then ''-'' else '''') @ ip @ ''.'' @ fp) =
     Finite ((if neg then - 1 else 1) * (real (digitsValue (ip @ fp)) / 10 ^ length fp))"
proof -
  obtain c cs where ip: "ip = c # cs"
    using assms(1) by (cases ip) auto
  have c: "isDigit c"
    using assms(2) ip by simp
  then have c_other: "\<not> isWhiteSpace c" "c \<noteq> CHR ''-''" "c \<noteq> CHR ''+''" "c \<noteq> CHR ''I''"
    by (auto simp: isDigit_def isWhiteSpace_def)
  have minus: "\<not> isWhiteSpace (CHR ''-'')"
    by (simp add: isWhiteSpace_def)
  let ?t = "ip @ CHR ''.'' # fp"
  have whole: "(if neg then ''-'' else '''') @ ip @ ''.'' @ fp = (if neg then ''-'' else '''') @ ?t"
    by simp
  have sign: "signOf (dropWhile isWhiteSpace ((if neg then ''-'' else '''') @ ?t)) = (neg, ?t)"
    using c_other minus by (cases neg) (simp_all add: ip signOf_def)
  have inf: "take 8 ?t \<noteq> ''Infinity''"
    using c_other by (simp add: ip)
  have t1: "takeWhile isDigit ?t = ip" and d1: "dropWhile isDigit ?t = CHR ''.'' # fp"
    using assms(2) takeWhile_digits [of ip "CHR ''.'' # fp"] by (simp_all add: not_isDigit_point)
  have t2: "takeWhile isDigit fp = fp" and d2: "dropWhile isDigit fp = []"
    using assms(3) takeWhile_digits [of fp "[]"] by simp_all
  have e: "exponentPart [] = 0"
    by (simp add: exponentPart_def)
  have "parseFloat ((if neg then ''-'' else '''') @ ?t) =
      Finite (if neg then - (real (digitsValue ip) + real (digitsValue fp) / 10 ^ length fp)
              else real (digitsValue ip) + real (digitsValue fp) / 10 ^ length fp)"
    unfolding parseFloat_def sign
    using assms(1) inf by (simp only: Let_def prod.case t1 d1 t2 d2 e scale10_def list.sel) (simp add: e)
  moreover have "real (digitsValue ip) + real (digitsValue fp) / 10 ^ length fp =
      real (digitsValue (ip @ fp)) / 10 ^ length fp"
    by (simp add: digitsValue_append field_simps)
  ultimately show ?thesis by (simp only: whole) simp
qed

lemma toFixed_parseFloat:
  assumes "f \<noteq> 0" and "\<bar>x\<bar> < 10 ^ 21"
  shows "fixedNotation f (toFixed ts f x)"
    and "parseFloat (toFixed ts f x) =
      Finite ((if x < 0 then - 1 else 1) * (real (nat \<lfloor>\<bar>x\<bar> * 10 ^ f + 1 / 2\<rfloor>) / 10 ^ f))"
proof -
  obtain ip fp where shape: "toFixed ts f x = (if x < 0 then ''-'' else '''') @ ip @ ''.'' @ fp"
    and ip: "ip \<noteq> []" "list_all isDigit ip" and fp: "list_all isDigit fp" "length fp = f"
    and val: "digitsValue (ip @ fp) = nat \<lfloor>\<bar>x\<bar> * 10 ^ f + 1 / 2\<rfloor>"
    using assms by (rule toFixed_shape)
  show "fixedNotation f (toFixed ts f x)"
    using fixedNotation_shape [OF ip fp(1), of "x < 0"] by (simp add: shape fp(2))
  show "parseFloat (toFixed ts f x) =
      Finite ((if x < 0 then - 1 else 1) * (real (nat \<lfloor>\<bar>x\<bar> * 10 ^ f + 1 / 2\<rfloor>) / 10 ^ f))"
    using parseFloat_fixed [OF ip fp(1), of "x < 0"] by (simp add: shape fp(2) val)
qed

text \<open>The number read back is the one formatted, up to half a unit of the last place.\<close>

lemma rounded_close:
  fixes x :: real
  shows "\<bar>(if x < 0 then - 1 else 1) * (real (nat \<lfloor>\<bar>x\<bar> * 10 ^ f + 1 / 2\<rfloor>) / 10 ^ f) - x\<bar>
     \<le> 1 / (2 * 10 ^ f)"
proof -
  define y where "y = \<bar>x\<bar> * 10 ^ f"
  define n where "n = \<lfloor>y + 1 / 2\<rfloor>"
  have y0: "0 \<le> y" by (simp add: y_def)
  then have n0: "0 \<le> n" by (simp add: n_def)
  have "real_of_int n \<le> y + 1 / 2" and "y + 1 / 2 < real_of_int n + 1"
    unfolding n_def by linarith+
  then have close: "\<bar>real_of_int n - y\<bar> \<le> 1 / 2" by linarith
  have "\<bar>real_of_int n / 10 ^ f - \<bar>x\<bar>\<bar> = \<bar>real_of_int n - y\<bar> / 10 ^ f"
    by (simp add: y_def field_simps abs_divide flip: abs_mult)
  also have "\<dots> \<le> (1 / 2) / 10 ^ f"
    using close by (intro divide_right_mono) simp_all
  finally have "\<bar>real_of_int n / 10 ^ f - \<bar>x\<bar>\<bar> \<le> 1 / (2 * 10 ^ f)"
    by simp
  moreover have "real (nat \<lfloor>\<bar>x\<bar> * 10 ^ f + 1 / 2\<rfloor>) = real_of_int n"
    using n0 by (simp add: n_def y_def)
  moreover have "(if x < 0 then - 1 else 1) * (real_of_int n / 10 ^ f) - x =
      (if x < 0 then - 1 else 1) * (real_of_int n / 10 ^ f - \<bar>x\<bar>)"
    by (simp add: algebra_simps)
  moreover have "\<bar>(if x < 0 then - 1 else 1) * (real_of_int n / 10 ^ f - \<bar>x\<bar>)\<bar> =
      \<bar>real_of_int n / 10 ^ f - \<bar>x\<bar>\<bar>"
    by (simp add: abs_mult)
  ultimately show ?thesis
    by (simp only:)
qed

lemma replicate_numeral: "replicate (numeral k) x = x # replicate (pred_numeral k) x"
  by (simp add: numeral_eq_Suc)

lemma toFixed_examples:
  "toFixed ts 5 48.137434 = ''48.13743''"
  "toFixed ts 5 (- 11.5) = ''-11.50000''"
  "toFixed ts 5 0.000004 = ''0.00000''"
  by (simp_all add: toFixed_def eval_text replicate_numeral)

text \<open>
  C9. A click on the map always sets the position to the pair of coordinates it delivers
  and the two text fields to \<open>toFixed(5)\<close> of the coordinates. For a coordinate below
  \<open>10^21\<close> in size, as every coordinate of a map is, that text is in fixed notation
  with exactly 5 digits after the point, and reads back as the coordinate up to half a
  unit of the fifth place.
\<close>

theorem handlePositionChange_overwrites:
  "handlePositionChange ts (la, lo) st =
     st\<lparr>position := Some (la, lo), lat := toFixed ts 5 la, lng := toFixed ts 5 lo\<rparr> \<and>
   (\<bar>la\<bar> < 10 ^ 21 \<longrightarrow>
      fixedNotation 5 (lat (handlePositionChange ts (la, lo) st)) \<and>
      (\<exists>v. parseFloat (lat (handlePositionChange ts (la, lo) st)) = Finite v \<and>
         \<bar>v - la\<bar> \<le> 5 / 10 ^ 6)) \<and>
   (\<bar>lo\<bar> < 10 ^ 21 \<longrightarrow>
      fixedNotation 5 (lng (handlePositionChange ts (la, lo) st)) \<and>
      (\<exists>w. parseFloat (lng (handlePositionChange ts (la, lo) st)) = Finite w \<and>
         \<bar>w - lo\<bar> \<le> 5 / 10 ^ 6))"
proof -
  have eq: "handlePositionChange ts (la, lo) st =
      st\<lparr>position := Some (la, lo), lat := toFixed ts 5 la, lng := toFixed ts 5 lo\<rparr>"
    by (simp add: handlePositionChange_def)
  have close: "\<exists>v. parseFloat (toFixed ts 5 x) = Finite v \<and> \<bar>v - x\<bar> \<le> 5 / 10 ^ 6"
    if "\<bar>x\<bar> < 10 ^ 21" for x
  proof -
    let ?v = "(if x < 0 then - 1 else 1) * (real (nat \<lfloor>\<bar>x\<bar> * 10 ^ 5 + 1 / 2\<rfloor>) / 10 ^ 5)"
    have "parseFloat (toFixed ts 5 x) = Finite ?v"
      using that by (intro toFixed_parseFloat) simp
    moreover have "\<bar>?v - x\<bar> \<le> 1 / (2 * 10 ^ 5)"
      by (rule rounded_close)
    then have "\<bar>?v - x\<bar> \<le> 5 / 10 ^ 6"
      by simp
    ultimately show ?thesis by blast
  qed
  have fixed: "fixedNotation 5 (toFixed ts 5 x)" if "\<bar>x\<bar> < 10 ^ 21" for x
    using that by (intro toFixed_parseFloat) simp
  show ?thesis
    using close [of la] close [of lo] fixed [of la] fixed [of lo]
    by (simp add: eq)
qed

theorem handlePositionChange_overwrites_witness:
  "handlePositionChange wholeText (48.137434, - 11.5) initial =
     initial\<lparr>position := Some (48.137434, - 11.5), lat := ''48.13743'', lng := ''-11.50000''\<rparr> \<and>
   fixedNotation 5 ''48.13743'' \<and> fixedNotation 5 ''-11.50000'' \<and>
   parseFloat ''48.13743'' = Finite 48.13743 \<and> parseFloat ''-11.50000'' = Finite (- 11.5)"
proof -
  have small: "\<bar>48.137434 :: real\<bar> < 10 ^ 21" "\<bar>- 11.5 :: real\<bar> < 10 ^ 21"
    by simp_all
  note h = handlePositionChange_overwrites [of wholeText "48.137434" "- 11.5" initial]
  from h have e: "handlePositionChange wholeText (48.137434, - 11.5) initial =
      initial\<lparr>position := Some (48.137434, - 11.5), lat := ''48.13743'', lng := ''-11.50000''\<rparr>"
    by (simp only: toFixed_examples)
  from h small
  have "fixedNotation 5 (lat (handlePositionChange wholeText (48.137434, - 11.5) initial))"
    and "fixedNotation 5 (lng (handlePositionChange wholeText (48.137434, - 11.5) initial))"
    by blast+
  then have f: "fixedNotation 5 ''48.13743''" "fixedNotation 5 ''-11.50000''"
    unfolding e by simp_all
  have p: "parseFloat ''48.13743'' = Finite 48.13743" "parseFloat ''-11.50000'' = Finite (- 11.5)"
    by (simp_all add: parseFloat_def signOf_def isWhiteSpace_def isDigit_def digitsValue_def
        exponentPart_def scale10_def Let_def)
  from e f p show ?thesis by blast
qed

section \<open>Properties of the suggestion\<close>

subsection \<open>Rounding to a double\<close>

lemma log2floor_less_2: "n < 2 \<Longrightarrow> log2floor n = 0"
  by (simp add: log2floor.simps)

lemma log2floor_ge_2: "2 \<le> n \<Longrightarrow> log2floor n = Suc (log2floor (n div 2))"
  by (subst log2floor.simps) simp

lemma halvings_numeral:
  "halvings (numeral k) y = (if 1 \<le> y then 0 else Suc (halvings (pred_numeral k) (2 * y)))"
  by (simp add: numeral_eq_Suc)

lemma exponent_half: "exponent (1 / 2) = - 1"
  by (simp add: exponent_def halvings_numeral)

lemmas eval_double = toDouble_def minus_double_def exponent_def pow2_def roundHalfEven_def
  log2floor_less_2 log2floor_ge_2 Let_def

lemma toDouble_examples:
  "toDouble 48.3 = Finite (6797620687562342 / 2 ^ 47)"
  "toDouble 28 = Finite 28"
  "toDouble 35.25 = Finite 35.25"
  "toDouble 0 = Finite 0"
  "toDouble (2 ^ 53 + 1) = Finite (2 ^ 53)"
  by (simp_all add: eval_double)

lemma minus_double_examples:
  "minus_double 20 48 = Finite (- 28)"
  "minus_double 20 (6797620687562342 / 2 ^ 47) = Finite (- 3982870920455782 / 2 ^ 47)"
  "minus_double 90 (3602879701896397 / 2 ^ 55) = Finite (6326150101571994 / 2 ^ 46)"
  by (simp_all add: eval_double)

lemma parseFloat_double_examples:
  "parseFloat_double ''48.3'' = Finite (6797620687562342 / 2 ^ 47)"
  "parseFloat_double ''48.5'' = Finite 48.5"
  "parseFloat_double ''90.00000000000000001'' = Finite 90"
  "parseFloat_double ''abc'' = NaN"
  by (simp_all add: parseFloat_double_def parseFloat_def signOf_def isWhiteSpace_def isDigit_def
      digitsValue_def exponentPart_def scale10_def eval_double)

text \<open>
  The exponent found is that of the binade of the value, and rounding moves a value in
  the normal range by at most half a unit of the last place.
\<close>

lemma log2floor_bounds: "0 < n \<Longrightarrow> 2 ^ log2floor n \<le> n \<and> n < 2 * 2 ^ log2floor n"
proof (induction n rule: log2floor.induct)
  case (1 n)
  show ?case
  proof (cases "n < 2")
    case True
    with "1.prems" show ?thesis
      by (simp add: log2floor_less_2)
  next
    case False
    then have "0 < n div 2"
      by simp
    with "1.IH" False
    have "2 ^ log2floor (n div 2) \<le> n div 2" and "n div 2 < 2 * 2 ^ log2floor (n div 2)"
      by simp_all
    with False show ?thesis
      by (simp add: log2floor_ge_2) linarith
  qed
qed

lemma halvings_ge_1: "1 \<le> y \<Longrightarrow> halvings k y = 0"
  by (cases k) simp_all

lemma halvings_bounds:
  "0 < y \<Longrightarrow> y < 1 \<Longrightarrow> 1 \<le> y * 2 ^ k \<Longrightarrow>
     1 \<le> y * 2 ^ halvings k y \<and> y * 2 ^ halvings k y < 2"
proof (induction k arbitrary: y)
  case 0
  then show ?case by simp
next
  case (Suc k)
  show ?case
  proof (cases "1 \<le> 2 * y")
    case True
    with Suc.prems show ?thesis
      by (simp add: halvings_ge_1)
  next
    case False
    with Suc.prems have "0 < 2 * y" and "2 * y < 1" and "1 \<le> (2 * y) * 2 ^ k"
      by (simp_all add: mult.assoc mult.left_commute)
    then have "1 \<le> (2 * y) * 2 ^ halvings k (2 * y) \<and> (2 * y) * 2 ^ halvings k (2 * y) < 2"
      by (rule Suc.IH)
    with Suc.prems show ?thesis
      by (simp add: mult.assoc mult.left_commute)
  qed
qed

lemma pow2_powi: "pow2 i = 2 powi i"
  by (simp add: pow2_def power_int_def inverse_eq_divide power_one_over)

lemma pow2_pos: "0 < pow2 i"
  by (simp add: pow2_powi)

lemma pow2_diff: "pow2 (e - int k) = pow2 e / 2 ^ k"
  by (simp add: pow2_powi power_int_diff)

lemma exponent_bounds:
  assumes "pow2 (- 1022) \<le> y"
  shows "pow2 (exponent y) \<le> y \<and> y < 2 * pow2 (exponent y)"
proof (cases "1 \<le> y")
  case True
  define n where "n = nat \<lfloor>y\<rfloor>"
  define p where "p = (2::nat) ^ log2floor n"
  have n: "0 < n" "real n \<le> y" "y < real n + 1"
    using True by (simp_all add: n_def)
  from n(1) have "p \<le> n" and "n + 1 \<le> 2 * p"
    using log2floor_bounds [of n] by (simp_all add: p_def)
  then have "real p \<le> real n" and "real n + 1 \<le> 2 * real p"
    by linarith+
  with n have "real p \<le> y" and "y < 2 * real p"
    by linarith+
  moreover have "pow2 (exponent y) = real p"
    using True by (simp add: exponent_def pow2_def p_def n_def)
  ultimately show ?thesis
    by simp
next
  case False
  define h where "h = halvings 1022 y"
  define t where "t = (2::real) ^ h"
  have pos: "0 < y"
    using assms pow2_pos [of "- 1022"] by linarith
  have "pow2 (- 1022) = 1 / 2 ^ 1022"
    by (simp add: pow2_def)
  with assms have "1 / 2 ^ 1022 \<le> y"
    by simp
  then have "1 \<le> y * 2 ^ 1022"
    by (simp add: pos_divide_le_eq)
  with pos False have "1 \<le> y * 2 ^ halvings 1022 y \<and> y * 2 ^ halvings 1022 y < 2"
    by (intro halvings_bounds) simp_all
  then have b: "1 \<le> y * t" "y * t < 2"
    by (simp_all add: t_def h_def)
  have t: "0 < t"
    by (simp add: t_def)
  have "pow2 (exponent y) = 1 / t"
    using False by (simp add: exponent_def pow2_powi power_int_minus inverse_eq_divide t_def h_def)
  moreover from b t have "1 / t \<le> y" and "y < 2 * (1 / t)"
    by (simp_all add: field_simps)
  ultimately show ?thesis
    by simp
qed

lemma roundHalfEven_close: "\<bar>of_int (roundHalfEven z) - z\<bar> \<le> 1 / 2"
  by (simp add: roundHalfEven_def Let_def)

lemma toDouble_close:
  assumes "pow2 (- 1022) \<le> \<bar>x\<bar>" and "\<bar>x\<bar> < 2 ^ 1023"
  obtains v where "toDouble x = Finite v" and "\<bar>v - x\<bar> \<le> \<bar>x\<bar> / 2 ^ 53"
proof -
  define y where "y = \<bar>x\<bar>"
  define q where "q = pow2 (exponent y - 52)"
  define r where "r = of_int (roundHalfEven (y / q)) * q"
  have e: "pow2 (exponent y) \<le> y"
    using assms(1) exponent_bounds [of y] by (simp add: y_def)
  have q: "0 < q" "q = pow2 (exponent y) / 2 ^ 52"
    using pow2_diff [of "exponent y" 52] by (simp_all add: q_def pow2_pos)
  have "r - y = (of_int (roundHalfEven (y / q)) - y / q) * q"
    using q(1) by (simp add: r_def field_simps)
  then have "\<bar>r - y\<bar> = \<bar>of_int (roundHalfEven (y / q)) - y / q\<bar> * q"
    using q(1) by (simp add: abs_mult)
  also have "\<dots> \<le> (1 / 2) * q"
    using q(1) roundHalfEven_close [of "y / q"] by (intro mult_right_mono) simp_all
  also have "\<dots> = pow2 (exponent y) / 2 ^ 53"
    by (simp add: q(2))
  also have "\<dots> \<le> y / 2 ^ 53"
    using e by (simp add: divide_right_mono)
  finally have close: "\<bar>r - y\<bar> \<le> y / 2 ^ 53" .
  have "y / 2 ^ 53 \<le> y"
    by (simp add: y_def field_simps)
  with close have "r \<le> 2 * y"
    by linarith
  also have "\<dots> < 2 * 2 ^ 1023"
    using assms(2) by (simp add: y_def)
  finally have finite: "\<not> pow2 1024 \<le> r"
    by (simp add: pow2_def)
  have "toDouble x = Finite (if x < 0 then - r else r)"
    using finite by (simp add: toDouble_def Let_def flip: y_def q_def r_def)
  moreover have "\<bar>(if x < 0 then - r else r) - x\<bar> \<le> \<bar>x\<bar> / 2 ^ 53"
    using close by (auto simp: y_def abs_if split: if_splits)
  ultimately show thesis
    by (rule that)
qed

lemma other_whole_half_apart:
  assumes "k \<in> \<int>" and "k \<noteq> Math_round t"
  shows "1 / 2 \<le> \<bar>k - t\<bar>"
proof -
  from assms(1) obtain i where k: "k = of_int i"
    by (rule Ints_cases)
  define m where "m = \<lfloor>t + 1 / 2\<rfloor>"
  have m: "of_int m \<le> t + 1 / 2" "t + 1 / 2 < of_int m + 1"
    unfolding m_def by linarith+
  from assms(2) have "i \<noteq> m"
    by (auto simp: k Math_round_def m_def)
  then consider "i \<le> m - 1" | "m + 1 \<le> i"
    by linarith
  then show ?thesis
  proof cases
    case 1
    then have "real_of_int i \<le> of_int m - 1"
      by (metis of_int_1 of_int_diff of_int_le_iff)
    with m show ?thesis unfolding k by linarith
  next
    case 2
    then have "of_int m + 1 \<le> real_of_int i"
      by (metis of_int_1 of_int_add of_int_le_iff)
    with m show ?thesis unfolding k by linarith
  qed
qed

lemma Math_round_whole: "x \<in> \<int> \<Longrightarrow> Math_round x = x"
  by (auto simp: Math_round_def elim!: Ints_cases)

subsection \<open>The claim\<close>

text \<open>
  Tilt 20 at latitude 48.3. The latitude is held as the double nearest to 48.3, which is
  \<open>6797620687562342 / 2^47\<close> and rounds to 48; with it as the optimal tilt of a result
  with twelve monthly values, the figure in the line is the double
  \<open>3982870920455782 / 2^47\<close>, which lies between 28.2999999999999965 and
  28.2999999999999975 (its text is 28.299999999999997) and is not 28.
\<close>

theorem improvement_figure_not_rounded:
  "toDouble 48.3 = Finite (6797620687562342 / 2 ^ 47) \<and>
   Math_round (6797620687562342 / 2 ^ 47) = 48 \<and>
   improvementLine (initial\<lparr>position := Some (6797620687562342 / 2 ^ 47, 11), tilt := 20,
     solarData := Some \<lparr>yearlyIrradiation = 1184,
       monthlyData = [50, 70, 110, 140, 160, 170, 175, 160, 125, 90, 55, 45],
       optimalTilt = 6797620687562342 / 2 ^ 47, optimalAzimuth = 180, loss = 0\<rparr>\<rparr>) =
     Inr (Some (Finite (3982870920455782 / 2 ^ 47))) \<and>
   improvementLine (initial\<lparr>position := Some (6797620687562342 / 2 ^ 47, 11), tilt := 20,
     solarData := Some \<lparr>yearlyIrradiation = 1184,
       monthlyData = [50, 70, 110, 140, 160, 170, 175, 160, 125, 90, 55, 45],
       optimalTilt = 6797620687562342 / 2 ^ 47, optimalAzimuth = 180, loss = 0\<rparr>\<rparr>) \<noteq>
     Inr (Some (Finite 28)) \<and>
   (28.2999999999999965 :: real) < 3982870920455782 / 2 ^ 47 \<and>
   (3982870920455782 / 2 ^ 47 :: real) < 28.2999999999999975"
  by (simp add: improvementLine_def Math_round_def initial_def eval_double)

text \<open>
  C7, as the code has it. With a result of at least twelve monthly values stored (the
  results panel is displayed) and a tilt of whole degrees (what the slider gives), the
  line is rendered exactly when the tilt differs from the optimal tilt rounded to the
  nearest whole degree. The figure in it is the absolute value of the tilt minus the
  optimal tilt as stored, not rounded to whole degrees, subtracted as doubles are: it is
  the absolute difference up to one part in \<open>2^53\<close>.
\<close>

theorem improvementLine_rendered:
  assumes "solarData st = Some d" and "12 \<le> length (monthlyData d)" and "tilt st \<in> \<int>"
  shows "improvementLine st =
       Inr (if Math_round (tilt st) \<noteq> Math_round (optimalTilt d)
            then Some (Math_abs (minus_double (tilt st) (optimalTilt d))) else None) \<and>
     ((\<exists>figure. improvementLine st = Inr (Some figure)) \<longleftrightarrow>
        Math_round (tilt st) \<noteq> Math_round (optimalTilt d)) \<and>
     (Math_round (tilt st) \<noteq> Math_round (optimalTilt d) \<and>
      \<bar>tilt st - optimalTilt d\<bar> < 2 ^ 1023 \<longrightarrow>
        (\<exists>v. improvementLine st = Inr (Some (Finite v)) \<and>
           \<bar>v - \<bar>tilt st - optimalTilt d\<bar>\<bar> \<le> \<bar>tilt st - optimalTilt d\<bar> / 2 ^ 53))"
proof -
  have whole: "Math_round (tilt st) = tilt st"
    using assms(3) by (rule Math_round_whole)
  have line: "improvementLine st =
      Inr (if Math_round (tilt st) \<noteq> Math_round (optimalTilt d)
           then Some (Math_abs (minus_double (tilt st) (optimalTilt d))) else None)"
    using assms(1,2) by (simp add: improvementLine_def whole)
  have close: "\<exists>v. improvementLine st = Inr (Some (Finite v)) \<and>
      \<bar>v - \<bar>tilt st - optimalTilt d\<bar>\<bar> \<le> \<bar>tilt st - optimalTilt d\<bar> / 2 ^ 53"
    if differ: "Math_round (tilt st) \<noteq> Math_round (optimalTilt d)"
      and bound: "\<bar>tilt st - optimalTilt d\<bar> < 2 ^ 1023"
  proof -
    let ?x = "tilt st - optimalTilt d"
    have "tilt st \<noteq> Math_round (optimalTilt d)"
      using differ by (simp add: whole)
    with assms(3) have "1 / 2 \<le> \<bar>?x\<bar>"
      by (rule other_whole_half_apart)
    moreover have "pow2 (- 1022) \<le> 1 / 2"
      by (simp add: pow2_def)
    ultimately have "pow2 (- 1022) \<le> \<bar>?x\<bar>"
      by linarith
    then obtain w where w: "toDouble ?x = Finite w" and "\<bar>w - ?x\<bar> \<le> \<bar>?x\<bar> / 2 ^ 53"
      using bound by (rule toDouble_close)
    then have "\<bar>\<bar>w\<bar> - \<bar>?x\<bar>\<bar> \<le> \<bar>?x\<bar> / 2 ^ 53"
      by linarith
    moreover have "improvementLine st = Inr (Some (Finite \<bar>w\<bar>))"
      using differ w by (simp add: line minus_double_def)
    ultimately show ?thesis by blast
  qed
  from line close show ?thesis
    by auto
qed

theorem improvementLine_rendered_witness:
  "improvementLine (initial\<lparr>tilt := 35,
     solarData := Some \<lparr>yearlyIrradiation = 1184,
       monthlyData = [50, 70, 110, 140, 160, 170, 175, 160, 125, 90, 55, 45],
       optimalTilt = 35.25, optimalAzimuth = 180, loss = 0\<rparr>\<rparr>) = Inr None \<and>
   improvementLine (initial\<lparr>tilt := 35,
     solarData := Some \<lparr>yearlyIrradiation = 1184,
       monthlyData = [50, 70, 110, 140, 160, 170, 175, 160, 125, 90, 55, 45],
       optimalTilt = 34.5, optimalAzimuth = 180, loss = 0\<rparr>\<rparr>) = Inr None \<and>
   improvementLine (initial\<lparr>tilt := 34,
     solarData := Some \<lparr>yearlyIrradiation = 1184,
       monthlyData = [50, 70, 110, 140, 160, 170, 175, 160, 125, 90, 55, 45],
       optimalTilt = 34.5, optimalAzimuth = 180, loss = 0\<rparr>\<rparr>) = Inr (Some (Finite 0.5)) \<and>
   improvementLine (initial\<lparr>tilt := 20,
     solarData := Some \<lparr>yearlyIrradiation = 1184,
       monthlyData = [50, 70, 110, 140, 160, 170, 175, 160, 125, 90, 55, 45],
       optimalTilt = 48, optimalAzimuth = 180, loss = 0\<rparr>\<rparr>) = Inr (Some (Finite 28)) \<and>
   improvementLine (initial\<lparr>tilt := 20,
     solarData := Some \<lparr>yearlyIrradiation = 1184,
       monthlyData = [50, 70, 110, 140, 160, 170, 175, 160, 125, 90, 55, 45],
       optimalTilt = 6797620687562342 / 2 ^ 47, optimalAzimuth = 180, loss = 0\<rparr>\<rparr>) =
     Inr (Some (Finite (3982870920455782 / 2 ^ 47)))"
proof -
  let ?d = "\<lambda>t. \<lparr>yearlyIrradiation = 1184,
     monthlyData = [50, 70, 110, 140, 160, 170, 175, 160, 125, 90, 55, 45],
     optimalTilt = t, optimalAzimuth = 180, loss = 0\<rparr> :: SolarData"
  have "improvementLine (initial\<lparr>tilt := 35, solarData := Some (?d 35.25)\<rparr>) = Inr None"
    using improvementLine_rendered [of "initial\<lparr>tilt := 35, solarData := Some (?d 35.25)\<rparr>"
        "?d 35.25"]
    by (simp add: Math_round_def initial_def)
  moreover
  have "improvementLine (initial\<lparr>tilt := 35, solarData := Some (?d 34.5)\<rparr>) = Inr None"
    using improvementLine_rendered [of "initial\<lparr>tilt := 35, solarData := Some (?d 34.5)\<rparr>"
        "?d 34.5"]
    by (simp add: Math_round_def initial_def)
  moreover
  have "improvementLine (initial\<lparr>tilt := 34, solarData := Some (?d 34.5)\<rparr>) =
      Inr (Some (Finite 0.5))"
    using improvementLine_rendered [of "initial\<lparr>tilt := 34, solarData := Some (?d 34.5)\<rparr>"
        "?d 34.5"]
    by (simp add: Math_round_def initial_def toDouble_def minus_double_def exponent_half pow2_def
        roundHalfEven_def Let_def)
  moreover
  have "improvementLine (initial\<lparr>tilt := 20, solarData := Some (?d 48)\<rparr>) =
      Inr (Some (Finite 28))"
    using improvementLine_rendered [of "initial\<lparr>tilt := 20, solarData := Some (?d 48)\<rparr>" "?d 48"]
    by (simp add: Math_round_def initial_def eval_double)
  moreover
  have "improvementLine (initial\<lparr>tilt := 20,
      solarData := Some (?d (6797620687562342 / 2 ^ 47))\<rparr>) =
      Inr (Some (Finite (3982870920455782 / 2 ^ 47)))"
    using improvementLine_rendered [of
        "initial\<lparr>tilt := 20, solarData := Some (?d (6797620687562342 / 2 ^ 47))\<rparr>"
        "?d (6797620687562342 / 2 ^ 47)"]
    by (simp add: Math_round_def initial_def eval_double)
  ultimately show ?thesis by simp
qed

text \<open>With fewer than twelve monthly values stored the render throws.\<close>

lemma improvementLine_short_result:
  "solarData st = Some d \<Longrightarrow> length (monthlyData d) < 12 \<Longrightarrow> improvementLine st = Inl TypeError"
  by (simp add: improvementLine_def)

end
